theory Spec2Isabelle
  imports Main
begin

section \<open>Python values, exceptions and the process state\<close>

text \<open>
  The answers of a question, its stored default and the \<open>exit_on_kbi\<close> argument are
  arbitrary Python objects (\<open>Any\<close>). The code tells \<open>None\<close>, booleans and
  integers apart (\<open>is True\<close>, \<open>isinstance\<close>), so these are separate constructors.
\<close>

datatype pyval = PyNone | PyBool bool | PyInt int | PyStr string

text \<open>
  What a call can raise. \<open>exit(code)\<close> raises \<open>SystemExit\<close> carrying the exit
  code; every failure of the wrapped program other than these two is an
  \<open>OtherException\<close>, named by its class.
\<close>

datatype exn = KeyboardInterrupt | SystemExit pyval | OtherException string

type_synonym 'a result = "exn + 'a"

text \<open>Question objects live in a store and are passed by reference.\<close>

type_synonym ref = nat

text \<open>
  The calls the code makes into its collaborators, logged in the order they happen.
  \<open>Run r\<close> and \<open>RunAsync r\<close> are the calls \<open>application.run()\<close> and
  \<open>application.run_async()\<close> of the question stored at \<open>r\<close>.
\<close>

datatype call =
    Run ref
  | RunAsync ref
  | ToAsyncioFuture ref
  | PatchStdoutEnter
  | PatchStdoutExit
  | StdoutFlush
  | UseAsyncioEventLoop

text \<open>
  \<open>prompt_toolkit.Application\<close> is opaque: running it acts on the state \<open>'s\<close> of the
  rendering engine and either returns an answer or raises.
\<close>

record 's Application =
  run :: "'s \<Rightarrow> pyval result \<times> 's"
  run_async :: "'s \<Rightarrow> pyval result \<times> 's"

text \<open>
  class \<open>Question\<close> (question.py:41). The field \<open>default\<close> is named
  \<open>default_value\<close> here, since \<open>default\<close> is a constant of HOL.
\<close>

record 's Question =
  application :: "'s Application"
  should_skip_question :: bool
  default_value :: pyval

record 's world =
  engine :: 's
  questions :: "ref \<Rightarrow> 's Question"
  stdout :: string
  calls :: "call list"
  ACTIVATED_ASYNC_MODE :: bool
  ptk_version :: string

text \<open>
  The state when the modules have been imported: \<open>ACTIVATED_ASYNC_MODE = False\<close>
  (utils.py:18), nothing printed, no call made.
\<close>

definition process_start :: "'s \<Rightarrow> (ref \<Rightarrow> 's Question) \<Rightarrow> string \<Rightarrow> 's world" where
  "process_start e qs v =
     \<lparr>engine = e, questions = qs, stdout = [], calls = [],
      ACTIVATED_ASYNC_MODE = False, ptk_version = v\<rparr>"

definition record_call :: "call \<Rightarrow> 's world \<Rightarrow> 's world" where
  "record_call c w = w\<lparr>calls := calls w @ [c]\<rparr>"

text \<open>\<open>print(s)\<close> writes \<open>s\<close> and a newline to standard output.\<close>

definition print_py :: "string \<Rightarrow> 's world \<Rightarrow> 's world" where
  "print_py s w = w\<lparr>stdout := stdout w @ s @ ''\<newline>''\<rparr>"

definition exit_py :: "pyval \<Rightarrow> 's world \<Rightarrow> 'a result \<times> 's world" where
  "exit_py code w = (Inl (SystemExit code), w)"

text \<open>In Python \<open>bool\<close> is a subclass of \<open>int\<close>.\<close>

fun isinstance_bool :: "pyval \<Rightarrow> bool" where
  "isinstance_bool (PyBool b) = True"
| "isinstance_bool v = False"

fun isinstance_int :: "pyval \<Rightarrow> bool" where
  "isinstance_int (PyBool b) = True"
| "isinstance_int (PyInt n) = True"
| "isinstance_int v = False"

section \<open>question.py\<close>

text \<open>\<open>handle_kbi\<close> (question.py:13). \<open>if kbi_msg\<close> holds for a non-empty string.\<close>

definition handle_kbi ::
  "string option \<Rightarrow> bool \<Rightarrow> pyval \<Rightarrow> 's world \<Rightarrow> pyval result \<times> 's world" where
  "handle_kbi kbi_msg raise_on_kbi exit_on_kbi w =
     (if exit_on_kbi = PyBool True then exit_py (PyInt 0) w
      else if \<not> isinstance_bool exit_on_kbi \<and> isinstance_int exit_on_kbi
        then exit_py exit_on_kbi w
      else if raise_on_kbi then (Inl KeyboardInterrupt, w)
      else (case kbi_msg of
              None \<Rightarrow> (Inr PyNone, w)
            | Some m \<Rightarrow>
                if m \<noteq> [] then (Inr PyNone, print_py (''\<newline>'' @ m @ ''\<newline>'') w)
                else (Inr PyNone, w)))"

text \<open>\<open>Question.__init__\<close> (question.py:51), on the object at \<open>self\<close>.\<close>

definition Question_init :: "ref \<Rightarrow> 's Application \<Rightarrow> 's world \<Rightarrow> 's world" where
  "Question_init self app w =
     w\<lparr>questions := (questions w)
          (self := \<lparr>application = app, should_skip_question = False,
                    default_value = PyNone\<rparr>)\<rparr>"

text \<open>\<open>self.application.run()\<close>: the call is logged, the engine state moves on.\<close>

definition application_run :: "ref \<Rightarrow> 's world \<Rightarrow> pyval result \<times> 's world" where
  "application_run self w =
     (case run (application (questions w self)) (engine w) of
        (r, e') \<Rightarrow> (r, record_call (Run self) (w\<lparr>engine := e'\<rparr>)))"

text \<open>
  \<open>with prompt_toolkit.patch_stdout.patch_stdout(): body\<close>. The scope is left
  whether the body returns or raises.
\<close>

definition with_patch_stdout ::
  "('s world \<Rightarrow> 'a \<times> 's world) \<Rightarrow> 's world \<Rightarrow> 'a \<times> 's world" where
  "with_patch_stdout body w =
     (case body (record_call PatchStdoutEnter w) of
        (r, w') \<Rightarrow> (r, record_call PatchStdoutExit w'))"

text \<open>\<open>Question.unsafe_ask\<close> (question.py:117).\<close>

definition unsafe_ask :: "ref \<Rightarrow> bool \<Rightarrow> 's world \<Rightarrow> pyval result \<times> 's world" where
  "unsafe_ask self patch_stdout w =
     (if should_skip_question (questions w self)
        then (Inr (default_value (questions w self)), w)
      else if patch_stdout then with_patch_stdout (application_run self) w
      else application_run self w)"

text \<open>\<open>Question.ask\<close> (question.py:87): only \<open>KeyboardInterrupt\<close> is caught.\<close>

definition ask ::
  "ref \<Rightarrow> bool \<Rightarrow> string option \<Rightarrow> bool \<Rightarrow> pyval \<Rightarrow> 's world \<Rightarrow> pyval result \<times> 's world" where
  "ask self patch_stdout kbi_msg raise_on_kbi exit_on_kbi w =
     (case unsafe_ask self patch_stdout w of
        (Inl KeyboardInterrupt, w') \<Rightarrow> handle_kbi kbi_msg raise_on_kbi exit_on_kbi w'
      | (r, w') \<Rightarrow> (r, w'))"

text \<open>
  \<open>Question.skip_if\<close> (question.py:139). The argument \<open>default\<close> may be left out
  at the call (\<open>None\<close> here); it then takes its declared default, Python's \<open>None\<close>.
  The method returns \<open>self\<close>.
\<close>

definition skip_if :: "ref \<Rightarrow> bool \<Rightarrow> pyval option \<Rightarrow> 's world \<Rightarrow> ref \<times> 's world" where
  "skip_if self condition default_arg w =
     (self,
      w\<lparr>questions := (questions w)
           (self := (questions w self)
              \<lparr>should_skip_question := condition,
               default_value := (case default_arg of None \<Rightarrow> PyNone | Some d \<Rightarrow> d)\<rparr>)\<rparr>)"

section \<open>utils.py\<close>

text \<open>\<open>is_prompt_toolkit_3\<close> (utils.py:21): \<open>ptk_version.startswith("3.")\<close>.\<close>

definition is_prompt_toolkit_3 :: "'s world \<Rightarrow> bool" where
  "is_prompt_toolkit_3 w = (take 2 (ptk_version w) = ''3.'')"

text \<open>
  \<open>activate_prompt_toolkit_async_mode\<close> (utils.py:76). It returns \<open>None\<close>; what is
  left of it is the state.
\<close>

definition activate_prompt_toolkit_async_mode :: "'s world \<Rightarrow> 's world" where
  "activate_prompt_toolkit_async_mode w =
     (let w1 = (if \<not> is_prompt_toolkit_3 w then record_call UseAsyncioEventLoop w else w)
      in w1\<lparr>ACTIVATED_ASYNC_MODE := True\<rparr>)"

text \<open>
  A callable is known to these helpers only through
  \<open>inspect.signature(func).parameters\<close>: its parameters in the order they are
  declared, each with a name, a kind and possibly a default.
\<close>

datatype param_kind =
  POSITIONAL_ONLY | POSITIONAL_OR_KEYWORD | VAR_POSITIONAL | KEYWORD_ONLY | VAR_KEYWORD

record parameter =
  name :: string
  kind :: param_kind
  has_default :: bool

type_synonym callable = "parameter list"

text \<open>\<open>default_values_of\<close> (utils.py:27).\<close>

definition default_values_of :: "callable \<Rightarrow> string list" where
  "default_values_of func =
     map name (filter (\<lambda>v. has_default v \<or> kind v \<noteq> POSITIONAL_OR_KEYWORD) func)"

text \<open>\<open>arguments_of\<close> (utils.py:39).\<close>

definition arguments_of :: "callable \<Rightarrow> string list" where
  "arguments_of func = map name func"

text \<open>
  \<open>used_kwargs\<close> (utils.py:45). A dict is the list of its items in insertion order;
  the comprehension keeps the items whose key is among the parameter names.
\<close>

definition used_kwargs :: "(string \<times> 'v) list \<Rightarrow> callable \<Rightarrow> (string \<times> 'v) list" where
  "used_kwargs kwargs func =
     (let possible_arguments = arguments_of func
      in filter (\<lambda>(k, v). k \<in> set possible_arguments) kwargs)"

text \<open>
  \<open>required_arguments\<close> (utils.py:61). The slice \<open>args[: -len(defaults)]\<close> is taken
  only for a non-empty \<open>defaults\<close>; it keeps the first \<open>len(args) - len(defaults)\<close>
  elements, none when that is not positive.
\<close>

definition required_arguments :: "callable \<Rightarrow> string list" where
  "required_arguments func =
     (let defaults = default_values_of func;
          args = arguments_of func
      in if defaults \<noteq> [] then take (length args - length defaults) args else args)"

text \<open>\<open>missing_arguments\<close> (utils.py:71).\<close>

definition missing_arguments :: "callable \<Rightarrow> (string \<times> 'v) list \<Rightarrow> string set" where
  "missing_arguments func argdict = set (required_arguments func) - set (map fst argdict)"

section \<open>question.py, the asynchronous entry points\<close>

text \<open>
  \<open>r = self.application.run_async()\<close> makes the awaitable; awaiting it is modelled as
  running the program to its end, with the outcome \<open>run_async\<close> gives.
\<close>

definition application_run_async :: "ref \<Rightarrow> 's world \<Rightarrow> unit \<times> 's world" where
  "application_run_async self w = ((), record_call (RunAsync self) w)"

definition await_result :: "ref \<Rightarrow> 's world \<Rightarrow> pyval result \<times> 's world" where
  "await_result self w =
     (case run_async (application (questions w self)) (engine w) of
        (r, e') \<Rightarrow> (r, w\<lparr>engine := e'\<rparr>))"

text \<open>\<open>Question.unsafe_ask_async\<close> (question.py:154).\<close>

definition unsafe_ask_async :: "ref \<Rightarrow> bool \<Rightarrow> 's world \<Rightarrow> pyval result \<times> 's world" where
  "unsafe_ask_async self patch_stdout w =
     (if should_skip_question (questions w self)
        then (Inr (default_value (questions w self)), w)
      else
        let w1 = (if \<not> ACTIVATED_ASYNC_MODE w
                  then activate_prompt_toolkit_async_mode w else w);
            w2 = (if patch_stdout
                  then snd (with_patch_stdout (application_run_async self) w1)
                  else snd (application_run_async self w1))
        in if is_prompt_toolkit_3 w2 then await_result self w2
           else await_result self (record_call (ToAsyncioFuture self) w2))"

text \<open>\<open>Question.ask_async\<close> (question.py:56).\<close>

definition ask_async ::
  "ref \<Rightarrow> bool \<Rightarrow> string option \<Rightarrow> bool \<Rightarrow> pyval \<Rightarrow> 's world \<Rightarrow> pyval result \<times> 's world" where
  "ask_async self patch_stdout kbi_msg raise_on_kbi exit_on_kbi w =
     (case unsafe_ask_async self patch_stdout (record_call StdoutFlush w) of
        (Inl KeyboardInterrupt, w') \<Rightarrow> handle_kbi kbi_msg raise_on_kbi exit_on_kbi w'
      | (r, w') \<Rightarrow> (r, w'))"

section \<open>Clients\<close>

text \<open>
  A client makes calls one after the other. \<open>exec_op\<close> gives the state a call leaves,
  whether it returned or raised; a client that stops at an exception has run a prefix.
\<close>

datatype 's op =
    Ask ref bool "string option" bool pyval
  | AskAsync ref bool "string option" bool pyval
  | UnsafeAsk ref bool
  | UnsafeAskAsync ref bool
  | SkipIf ref bool "pyval option"
  | Activate

fun exec_op :: "'s op \<Rightarrow> 's world \<Rightarrow> 's world" where
  "exec_op (Ask r p m ra ex) w = snd (ask r p m ra ex w)"
| "exec_op (AskAsync r p m ra ex) w = snd (ask_async r p m ra ex w)"
| "exec_op (UnsafeAsk r p) w = snd (unsafe_ask r p w)"
| "exec_op (UnsafeAskAsync r p) w = snd (unsafe_ask_async r p w)"
| "exec_op (SkipIf r c d) w = snd (skip_if r c d w)"
| "exec_op Activate w = activate_prompt_toolkit_async_mode w"

fun exec_ops :: "'s op list \<Rightarrow> 's world \<Rightarrow> 's world" where
  "exec_ops [] w = w"
| "exec_ops (c # cs) w = exec_ops cs (exec_op c w)"

text \<open>
  Chaining, \<open>q.skip_if(...).ask(...)\<close>: the next method is called on the object
  the previous call returned, in the state that call left.
\<close>

definition call_on :: "ref \<times> 's world \<Rightarrow> (ref \<Rightarrow> 's world \<Rightarrow> 'a) \<Rightarrow> 'a" where
  "call_on rw method = method (fst rw) (snd rw)"

text \<open>
  A call that leaves a question at \<open>r\<close> skipped if it was: every call but
  \<open>skip_if\<close> on \<open>r\<close> with a false condition.
\<close>

fun keeps_skip :: "ref \<Rightarrow> 's op \<Rightarrow> bool" where
  "keeps_skip r (SkipIf r' c d) = (if r' = r then c else True)"
| "keeps_skip r c = True"

text \<open>How often the program of the question at \<open>r\<close> has been run.\<close>

definition program_runs :: "ref \<Rightarrow> 's world \<Rightarrow> nat" where
  "program_runs r w = length (filter (\<lambda>c. c = Run r \<or> c = RunAsync r) (calls w))"

text \<open>
  A stub program with a call counter as its engine state: every run counts one up and
  ends with the given outcome. \<open>stub_world\<close> is a fresh process in which every
  reference holds a question that wraps the stub.
\<close>

definition stub_program :: "pyval result \<Rightarrow> nat Application" where
  "stub_program outcome =
     \<lparr>run = (\<lambda>n. (outcome, Suc n)), run_async = (\<lambda>n. (outcome, Suc n))\<rparr>"

definition stub_world :: "pyval result \<Rightarrow> bool \<Rightarrow> pyval \<Rightarrow> string \<Rightarrow> nat world" where
  "stub_world outcome skip dflt version =
     process_start 0
       (\<lambda>r. \<lparr>application = stub_program outcome, should_skip_question = skip,
              default_value = dflt\<rparr>)
       version"

text \<open>
  In the words of the specification: the number of places of a text at which a given
  message occurs.
\<close>

fun occurrences :: "string \<Rightarrow> string \<Rightarrow> nat" where
  "occurrences m [] = (if m = [] then 1 else 0)"
| "occurrences m (c # cs) =
     (if take (length m) (c # cs) = m then 1 else 0) + occurrences m cs"

text \<open>In the words of the specification: a list with its trailing \<open>n\<close> elements removed.\<close>

definition without_trailing :: "nat \<Rightarrow> 'a list \<Rightarrow> 'a list" where
  "without_trailing n xs = rev (drop n (rev xs))"

section \<open>Basic facts\<close>

lemma record_call_fields [simp]:
  "engine (record_call c w) = engine w"
  "questions (record_call c w) = questions w"
  "stdout (record_call c w) = stdout w"
  "calls (record_call c w) = calls w @ [c]"
  "ACTIVATED_ASYNC_MODE (record_call c w) = ACTIVATED_ASYNC_MODE w"
  "ptk_version (record_call c w) = ptk_version w"
  by (simp_all add: record_call_def)

lemma unsafe_ask_skip:
  "should_skip_question (questions w r) \<Longrightarrow>
   unsafe_ask r p w = (Inr (default_value (questions w r)), w)"
  by (simp add: unsafe_ask_def)

lemma unsafe_ask_result:
  "\<not> should_skip_question (questions w r) \<Longrightarrow>
   fst (unsafe_ask r p w) = fst (run (application (questions w r)) (engine w))"
  by (simp add: unsafe_ask_def with_patch_stdout_def application_run_def split: prod.splits)

lemma ask_no_interrupt:
  "fst (unsafe_ask r p w) \<noteq> Inl KeyboardInterrupt \<Longrightarrow> ask r p m ra ex w = unsafe_ask r p w"
  by (auto simp: ask_def split: prod.splits sum.splits exn.splits)

lemma ask_interrupt:
  "unsafe_ask r p w = (Inl KeyboardInterrupt, w') \<Longrightarrow>
   ask r p m ra ex w = handle_kbi m ra ex w'"
  by (simp add: ask_def)

lemma handle_kbi_exit_true:
  "handle_kbi m ra (PyBool True) w = (Inl (SystemExit (PyInt 0)), w)"
  by (simp add: handle_kbi_def exit_py_def)

lemma handle_kbi_exit_int:
  "handle_kbi m ra (PyInt n) w = (Inl (SystemExit (PyInt n)), w)"
  by (simp add: handle_kbi_def exit_py_def)

lemma handle_kbi_raise:
  "ex \<noteq> PyBool True \<Longrightarrow> isinstance_bool ex \<or> \<not> isinstance_int ex \<Longrightarrow>
   handle_kbi m True ex w = (Inl KeyboardInterrupt, w)"
  by (auto simp: handle_kbi_def)

lemma handle_kbi_message:
  "m \<noteq> [] \<Longrightarrow>
   handle_kbi (Some m) False (PyBool False) w =
     (Inr PyNone, w\<lparr>stdout := stdout w @ ''\<newline>'' @ m @ ''\<newline>\<newline>''\<rparr>)"
  by (simp add: handle_kbi_def print_py_def)

lemma stub_interrupted:
  "unsafe_ask 0 False (stub_world (Inl KeyboardInterrupt) False PyNone ''3.0.1'') =
     (Inl KeyboardInterrupt,
      record_call (Run 0)
        ((stub_world (Inl KeyboardInterrupt) False PyNone ''3.0.1'')\<lparr>engine := Suc 0\<rparr>))"
  by (simp add: unsafe_ask_def application_run_def stub_world_def stub_program_def
      process_start_def)

lemma skip_if_fields:
  "fst (skip_if r c d w) = r"
  "questions (snd (skip_if r c d w)) r' =
     (if r' = r then (questions w r)\<lparr>should_skip_question := c,
        default_value := (case d of None \<Rightarrow> PyNone | Some v \<Rightarrow> v)\<rparr> else questions w r')"
  "engine (snd (skip_if r c d w)) = engine w"
  "calls (snd (skip_if r c d w)) = calls w"
  "stdout (snd (skip_if r c d w)) = stdout w"
  "ACTIVATED_ASYNC_MODE (snd (skip_if r c d w)) = ACTIVATED_ASYNC_MODE w"
  "ptk_version (snd (skip_if r c d w)) = ptk_version w"
  by (simp_all add: skip_if_def)

lemma handle_kbi_unchanged:
  "questions (snd (handle_kbi m ra ex w)) = questions w"
  "calls (snd (handle_kbi m ra ex w)) = calls w"
  "engine (snd (handle_kbi m ra ex w)) = engine w"
  "ACTIVATED_ASYNC_MODE (snd (handle_kbi m ra ex w)) = ACTIVATED_ASYNC_MODE w"
  "ptk_version (snd (handle_kbi m ra ex w)) = ptk_version w"
  by (simp_all add: handle_kbi_def exit_py_def print_py_def split: option.splits)

lemma ask_unchanged:
  "questions (snd (ask r p m ra ex w)) = questions (snd (unsafe_ask r p w))"
  "calls (snd (ask r p m ra ex w)) = calls (snd (unsafe_ask r p w))"
  "engine (snd (ask r p m ra ex w)) = engine (snd (unsafe_ask r p w))"
  "ACTIVATED_ASYNC_MODE (snd (ask r p m ra ex w)) = ACTIVATED_ASYNC_MODE (snd (unsafe_ask r p w))"
  by (simp_all add: ask_def handle_kbi_unchanged split: prod.splits sum.splits exn.splits)

lemma ask_async_unchanged:
  "questions (snd (ask_async r p m ra ex w)) =
     questions (snd (unsafe_ask_async r p (record_call StdoutFlush w)))"
  "calls (snd (ask_async r p m ra ex w)) =
     calls (snd (unsafe_ask_async r p (record_call StdoutFlush w)))"
  "engine (snd (ask_async r p m ra ex w)) =
     engine (snd (unsafe_ask_async r p (record_call StdoutFlush w)))"
  "ACTIVATED_ASYNC_MODE (snd (ask_async r p m ra ex w)) =
     ACTIVATED_ASYNC_MODE (snd (unsafe_ask_async r p (record_call StdoutFlush w)))"
  by (simp_all add: ask_async_def handle_kbi_unchanged split: prod.splits sum.splits exn.splits)

lemma activate_fields:
  "ACTIVATED_ASYNC_MODE (activate_prompt_toolkit_async_mode w)"
  "questions (activate_prompt_toolkit_async_mode w) = questions w"
  "engine (activate_prompt_toolkit_async_mode w) = engine w"
  "stdout (activate_prompt_toolkit_async_mode w) = stdout w"
  "ptk_version (activate_prompt_toolkit_async_mode w) = ptk_version w"
  "calls (activate_prompt_toolkit_async_mode w) =
     calls w @ (if is_prompt_toolkit_3 w then [] else [UseAsyncioEventLoop])"
  by (simp_all add: activate_prompt_toolkit_async_mode_def Let_def)

lemma unsafe_ask_questions: "questions (snd (unsafe_ask r p w)) = questions w"
  by (simp add: unsafe_ask_def with_patch_stdout_def application_run_def split: prod.splits)


lemma unsafe_ask_async_questions: "questions (snd (unsafe_ask_async r p w)) = questions w"
  by (simp add: unsafe_ask_async_def with_patch_stdout_def application_run_async_def
      await_result_def activate_fields Let_def case_prod_beta)


lemma unsafe_ask_runs:
  "program_runs r (snd (unsafe_ask r' p w)) =
     (if r' = r \<and> \<not> should_skip_question (questions w r') then Suc (program_runs r w)
      else program_runs r w)"
  by (simp add: unsafe_ask_def with_patch_stdout_def application_run_def program_runs_def
      split: prod.splits)

lemma unsafe_ask_async_runs:
  "program_runs r (snd (unsafe_ask_async r' p w)) =
     (if r' = r \<and> \<not> should_skip_question (questions w r') then Suc (program_runs r w)
      else program_runs r w)"
  by (simp add: unsafe_ask_async_def with_patch_stdout_def application_run_async_def
      await_result_def activate_fields Let_def program_runs_def case_prod_beta)

lemma program_runs_cong: "calls w' = calls w \<Longrightarrow> program_runs r w' = program_runs r w"
  by (simp add: program_runs_def)

lemma program_runs_record_call:
  "program_runs r (record_call c w) =
     (if c = Run r \<or> c = RunAsync r then Suc (program_runs r w) else program_runs r w)"
  by (simp add: program_runs_def)

lemma exec_op_keeps_skip:
  assumes "should_skip_question (questions w r)" and "keeps_skip r c"
  shows "should_skip_question (questions (exec_op c w) r)"
  using assms
  by (cases c)
     (simp_all add: ask_unchanged ask_async_unchanged unsafe_ask_questions
        unsafe_ask_async_questions activate_fields skip_if_fields split: if_splits)

lemma exec_op_no_run:
  assumes "should_skip_question (questions w r)"
  shows "program_runs r (exec_op c w) = program_runs r w"
proof (cases c)
  case (Ask r' p m ra ex)
  then show ?thesis
    using assms unsafe_ask_runs [of r r' p w]
    by (auto simp: program_runs_cong [OF ask_unchanged(2)])
next
  case (AskAsync r' p m ra ex)
  then show ?thesis
    using assms unsafe_ask_async_runs [of r r' p "record_call StdoutFlush w"]
    by (auto simp: program_runs_cong [OF ask_async_unchanged(2)] program_runs_record_call)
next
  case (UnsafeAsk r' p)
  then show ?thesis using assms by (auto simp: unsafe_ask_runs)
next
  case (UnsafeAskAsync r' p)
  then show ?thesis using assms by (auto simp: unsafe_ask_async_runs)
next
  case (SkipIf r' cond d)
  then show ?thesis by (simp add: program_runs_cong [OF skip_if_fields(4)])
next
  case Activate
  then show ?thesis by (simp add: program_runs_def activate_fields)
qed

lemma ask_runs:
  "\<not> should_skip_question (questions w r) \<Longrightarrow>
   program_runs r (snd (ask r p m ra ex w)) = Suc (program_runs r w)"
  using unsafe_ask_runs [of r r p w] by (simp add: program_runs_cong [OF ask_unchanged(2)])



lemma unsafe_ask_async_result:
  "\<not> should_skip_question (questions w r) \<Longrightarrow>
   fst (unsafe_ask_async r p w) = fst (run_async (application (questions w r)) (engine w))"
  by (simp add: unsafe_ask_async_def with_patch_stdout_def application_run_async_def
      await_result_def activate_fields Let_def case_prod_beta)

lemma ask_async_no_interrupt:
  "fst (unsafe_ask_async r p (record_call StdoutFlush w)) \<noteq> Inl KeyboardInterrupt \<Longrightarrow>
   ask_async r p m ra ex w = unsafe_ask_async r p (record_call StdoutFlush w)"
  by (auto simp: ask_async_def split: prod.splits sum.splits exn.splits)



lemma map_of_used_kwargs:
  "map_of (filter (\<lambda>(k, v). k \<in> S) kwargs) = map_of kwargs |` S"
  by (induction kwargs) (auto simp: restrict_map_def fun_eq_iff)

lemma ask_async_interrupt:
  "fst (unsafe_ask_async r p (record_call StdoutFlush w)) = Inl KeyboardInterrupt \<Longrightarrow>
   ask_async r p m ra ex w =
     handle_kbi m ra ex (snd (unsafe_ask_async r p (record_call StdoutFlush w)))"
  by (cases "unsafe_ask_async r p (record_call StdoutFlush w)") (simp add: ask_async_def)

lemma ask_interrupt_fst:
  "fst (unsafe_ask r p w) = Inl KeyboardInterrupt \<Longrightarrow>
   ask r p m ra ex w = handle_kbi m ra ex (snd (unsafe_ask r p w))"
  by (cases "unsafe_ask r p w") (simp add: ask_def)

lemma is_prompt_toolkit_3_record_call [simp]:
  "is_prompt_toolkit_3 (record_call c w) = is_prompt_toolkit_3 w"
  by (simp add: is_prompt_toolkit_3_def)

lemma is_prompt_toolkit_3_activate [simp]:
  "is_prompt_toolkit_3 (activate_prompt_toolkit_async_mode w) = is_prompt_toolkit_3 w"
  by (simp add: is_prompt_toolkit_3_def activate_fields)




lemma hook_calls_flush:
  "filter (\<lambda>c. c = UseAsyncioEventLoop) (calls (activate_prompt_toolkit_async_mode (record_call StdoutFlush w))) =
   filter (\<lambda>c. c = UseAsyncioEventLoop) (calls (activate_prompt_toolkit_async_mode w))"
  by (simp add: activate_fields)




section \<open>The skip path and the run path\<close>

text \<open>
  Claim C1. When the question is to be skipped, \<open>ask\<close> and \<open>unsafe_ask\<close> return the
  stored default and leave the whole state as it was: no call is logged, so the
  program has not been run. When it is not to be skipped and the program returns a
  value, \<open>ask\<close> and \<open>unsafe_ask\<close> return that value.
\<close>

theorem ask_skip_or_run:
  "(should_skip_question (questions w r) \<longrightarrow>
      ask r p m ra ex w = (Inr (default_value (questions w r)), w) \<and>
      unsafe_ask r p w = (Inr (default_value (questions w r)), w) \<and>
      program_runs r (snd (ask r p m ra ex w)) = program_runs r w) \<and>
   (\<not> should_skip_question (questions w r) \<and>
    fst (run (application (questions w r)) (engine w)) = Inr v \<longrightarrow>
      fst (ask r p m ra ex w) = Inr v \<and> fst (unsafe_ask r p w) = Inr v)"
proof (intro conjI impI)
  assume skip: "should_skip_question (questions w r)"
  show "unsafe_ask r p w = (Inr (default_value (questions w r)), w)"
    using skip by (rule unsafe_ask_skip)
  then show "ask r p m ra ex w = (Inr (default_value (questions w r)), w)"
    by (simp add: ask_def)
  then show "program_runs r (snd (ask r p m ra ex w)) = program_runs r w"
    by simp
next
  assume "\<not> should_skip_question (questions w r) \<and>
    fst (run (application (questions w r)) (engine w)) = Inr v"
  then show "fst (unsafe_ask r p w) = Inr v"
    by (simp add: unsafe_ask_result)
  then show "fst (ask r p m ra ex w) = Inr v"
    by (simp add: ask_no_interrupt)
qed

theorem ask_skip_or_run_witness:
  "should_skip_question
     (questions (stub_world (Inr (PyStr ''answer'')) True (PyStr ''preset'') ''3.0.1'') 0) \<and>
   ask 0 False None False (PyBool False)
     (stub_world (Inr (PyStr ''answer'')) True (PyStr ''preset'') ''3.0.1'') =
     (Inr (PyStr ''preset''),
      stub_world (Inr (PyStr ''answer'')) True (PyStr ''preset'') ''3.0.1'') \<and>
   \<not> should_skip_question
     (questions (stub_world (Inr (PyStr ''answer'')) False PyNone ''3.0.1'') 0) \<and>
   fst (ask 0 False None False (PyBool False)
     (stub_world (Inr (PyStr ''answer'')) False PyNone ''3.0.1'')) = Inr (PyStr ''answer'')"
  using
    ask_skip_or_run [where w = "stub_world (Inr (PyStr ''answer'')) True (PyStr ''preset'') ''3.0.1''"
      and r = 0 and p = False and m = None and ra = False and ex = "PyBool False"
      and v = "PyStr ''answer''"]
    ask_skip_or_run [where w = "stub_world (Inr (PyStr ''answer'')) False PyNone ''3.0.1''"
      and r = 0 and p = False and m = None and ra = False and ex = "PyBool False"
      and v = "PyStr ''answer''"]
  by (simp add: stub_world_def stub_program_def process_start_def)

section \<open>The interrupt policy\<close>

text \<open>
  Claim C2. When \<open>ask\<close> has caught a \<open>KeyboardInterrupt\<close>: with \<open>exit_on_kbi\<close> the
  literal \<open>True\<close> the process exits with status 0; with \<open>exit_on_kbi\<close> an integer that
  is not a boolean it exits with that status; both whatever \<open>raise_on_kbi\<close> is, so
  exit comes before raise. With any other \<open>exit_on_kbi\<close> and \<open>raise_on_kbi\<close> set the
  interrupt is raised to the caller.
\<close>

theorem interrupt_policy_precedence:
  assumes "unsafe_ask r p w = (Inl KeyboardInterrupt, w')"
  shows "ask r p m ra (PyBool True) w = (Inl (SystemExit (PyInt 0)), w') \<and>
         ask r p m ra (PyInt n) w = (Inl (SystemExit (PyInt n)), w') \<and>
         (ex \<noteq> PyBool True \<and> (isinstance_bool ex \<or> \<not> isinstance_int ex) \<longrightarrow>
            ask r p m True ex w = (Inl KeyboardInterrupt, w'))"
  using assms
  by (simp add: ask_interrupt handle_kbi_exit_true handle_kbi_exit_int handle_kbi_raise)

theorem interrupt_policy_precedence_witness:
  "ask 0 False None True (PyBool True)
     (stub_world (Inl KeyboardInterrupt) False PyNone ''3.0.1'') =
     (Inl (SystemExit (PyInt 0)),
      record_call (Run 0)
        ((stub_world (Inl KeyboardInterrupt) False PyNone ''3.0.1'')\<lparr>engine := Suc 0\<rparr>)) \<and>
   ask 0 False None True (PyInt 7)
     (stub_world (Inl KeyboardInterrupt) False PyNone ''3.0.1'') =
     (Inl (SystemExit (PyInt 7)),
      record_call (Run 0)
        ((stub_world (Inl KeyboardInterrupt) False PyNone ''3.0.1'')\<lparr>engine := Suc 0\<rparr>)) \<and>
   ask 0 False None True (PyBool False)
     (stub_world (Inl KeyboardInterrupt) False PyNone ''3.0.1'') =
     (Inl KeyboardInterrupt,
      record_call (Run 0)
        ((stub_world (Inl KeyboardInterrupt) False PyNone ''3.0.1'')\<lparr>engine := Suc 0\<rparr>))"
  using interrupt_policy_precedence [OF stub_interrupted,
      where m = None and ra = True and n = 7 and ex = "PyBool False"]
  by simp

text \<open>
  Claim C3, as amended. Under the default policy (\<open>raise_on_kbi\<close> false,
  \<open>exit_on_kbi\<close> false, a non-empty message), when \<open>ask\<close> has caught a
  \<open>KeyboardInterrupt\<close> it writes the message once to standard output, a newline
  before it and two after it (a blank line on each side), and returns \<open>None\<close> to
  the caller instead of raising.
\<close>

theorem interrupt_default_policy:
  assumes "unsafe_ask r p w = (Inl KeyboardInterrupt, w')" and "m \<noteq> []"
  shows "ask r p (Some m) False (PyBool False) w =
     (Inr PyNone, w'\<lparr>stdout := stdout w' @ ''\<newline>'' @ m @ ''\<newline>\<newline>''\<rparr>)"
  using assms by (simp add: ask_interrupt handle_kbi_message)

theorem interrupt_default_policy_witness:
  "''Cancelled by user'' \<noteq> [] \<and>
   fst (ask 0 False (Some ''Cancelled by user'') False (PyBool False)
     (stub_world (Inl KeyboardInterrupt) False PyNone ''3.0.1'')) = Inr PyNone \<and>
   stdout (snd (ask 0 False (Some ''Cancelled by user'') False (PyBool False)
     (stub_world (Inl KeyboardInterrupt) False PyNone ''3.0.1''))) =
     ''\<newline>Cancelled by user\<newline>\<newline>''"
  using interrupt_default_policy [OF stub_interrupted, where m = "''Cancelled by user''"]
  by (simp add: stub_world_def process_start_def)

text \<open>
  Claim C3 as stated asks for two occurrences of the message. On an interrupted
  question asked with the message \<open>Cancelled by user\<close> the output is the message once
  between newlines: it does not occur twice.
\<close>

theorem interrupt_message_twice_counterexample:
  "stdout (snd (ask 0 False (Some ''Cancelled by user'') False (PyBool False)
     (stub_world (Inl KeyboardInterrupt) False PyNone ''3.0.1''))) =
     ''\<newline>Cancelled by user\<newline>\<newline>'' \<and>
   occurrences ''Cancelled by user''
     (stdout (snd (ask 0 False (Some ''Cancelled by user'') False (PyBool False)
        (stub_world (Inl KeyboardInterrupt) False PyNone ''3.0.1'')))) \<noteq> 2"
  by (simp add: stub_world_def stub_program_def process_start_def ask_def unsafe_ask_def
      application_run_def handle_kbi_def print_py_def)

section \<open>Skipping\<close>

text \<open>
  Claim C4, as amended. Once the question at \<open>r\<close> is to be skipped, its program is
  not run by any sequence of calls (\<open>ask\<close>, \<open>unsafe_ask\<close>, their asynchronous forms,
  on this or any other question) in which no \<open>skip_if\<close> on \<open>r\<close> has a false
  condition; the question stays skipped throughout.
\<close>

theorem skipped_program_never_runs:
  assumes "should_skip_question (questions w r)" and "list_all (keeps_skip r) cs"
  shows "program_runs r (exec_ops cs w) = program_runs r w \<and>
         should_skip_question (questions (exec_ops cs w) r)"
  using assms
proof (induction cs arbitrary: w)
  case Nil
  then show ?case by simp
next
  case (Cons c cs)
  from Cons.prems have k: "keeps_skip r c" and ks: "list_all (keeps_skip r) cs"
    by simp_all
  have s: "should_skip_question (questions (exec_op c w) r)"
    using Cons.prems(1) k by (rule exec_op_keeps_skip)
  have n: "program_runs r (exec_op c w) = program_runs r w"
    using Cons.prems(1) by (rule exec_op_no_run)
  from Cons.IH [OF s ks] n show ?case by simp
qed

theorem skipped_program_never_runs_witness:
  "should_skip_question
     (questions (stub_world (Inr (PyStr ''answer'')) True (PyStr ''preset'') ''3.0.1'') 0) \<and>
   list_all (keeps_skip 0)
     [Ask 0 False None False (PyBool False), SkipIf 0 True (Some (PyStr ''other'')),
      UnsafeAsk 0 True, SkipIf 1 False None, AskAsync 0 False None False (PyBool False)] \<and>
   program_runs 0
     (exec_ops
        [Ask 0 False None False (PyBool False), SkipIf 0 True (Some (PyStr ''other'')),
         UnsafeAsk 0 True, SkipIf 1 False None, AskAsync 0 False None False (PyBool False)]
        (stub_world (Inr (PyStr ''answer'')) True (PyStr ''preset'') ''3.0.1'')) = 0"
  using skipped_program_never_runs
    [where w = "stub_world (Inr (PyStr ''answer'')) True (PyStr ''preset'') ''3.0.1''"
       and r = 0
       and cs = "[Ask 0 False None False (PyBool False), SkipIf 0 True (Some (PyStr ''other'')),
         UnsafeAsk 0 True, SkipIf 1 False None, AskAsync 0 False None False (PyBool False)]"]
  by (simp add: stub_world_def process_start_def program_runs_def)

text \<open>
  Claim C4 as stated covers later \<open>skip_if\<close> calls too. After \<open>skip_if(True, "X")\<close>
  the question is skipped; a later \<open>skip_if(False, "Y")\<close> followed by \<open>ask()\<close> runs
  the program.
\<close>

theorem skipped_then_unskipped_counterexample:
  "should_skip_question
     (questions (snd (skip_if 0 True (Some (PyStr ''X''))
        (stub_world (Inr (PyStr ''answer'')) False PyNone ''3.0.1''))) 0) \<and>
   program_runs 0
     (exec_ops [SkipIf 0 False (Some (PyStr ''Y'')), Ask 0 False None False (PyBool False)]
        (snd (skip_if 0 True (Some (PyStr ''X''))
           (stub_world (Inr (PyStr ''answer'')) False PyNone ''3.0.1'')))) \<noteq>
   program_runs 0
     (snd (skip_if 0 True (Some (PyStr ''X''))
        (stub_world (Inr (PyStr ''answer'')) False PyNone ''3.0.1'')))"
  by (simp add: stub_world_def stub_program_def process_start_def skip_if_def ask_def
      unsafe_ask_def application_run_def program_runs_def)

text \<open>
  Claim C5. \<open>skip_if(condition, default)\<close> sets \<open>should_skip_question\<close> to the
  condition and the stored default to \<open>default\<close>, and returns the reference it was
  called on. Of two chained calls the last wins: after
  \<open>skip_if(True, x).skip_if(False, y)\<close>, \<open>ask\<close> runs the program once, and when the
  program is not interrupted \<open>ask\<close> gives the program's outcome, not \<open>y\<close>.
\<close>

theorem skip_if_last_call_wins:
  "fst (skip_if r c (Some d) w) = r \<and>
   should_skip_question (questions (snd (skip_if r c (Some d) w)) r) = c \<and>
   default_value (questions (snd (skip_if r c (Some d) w)) r) = d \<and>
   program_runs r
     (snd (call_on (call_on (skip_if r True (Some x) w) (\<lambda>q. skip_if q False (Some y)))
        (\<lambda>q. ask q p m ra ex))) = Suc (program_runs r w) \<and>
   (fst (run (application (questions w r)) (engine w)) \<noteq> Inl KeyboardInterrupt \<longrightarrow>
      fst (call_on (call_on (skip_if r True (Some x) w) (\<lambda>q. skip_if q False (Some y)))
        (\<lambda>q. ask q p m ra ex)) =
      fst (run (application (questions w r)) (engine w)))"
proof -
  let ?w2 = "snd (skip_if r False (Some y) (snd (skip_if r True (Some x) w)))"
  have chain: "call_on (call_on (skip_if r True (Some x) w) (\<lambda>q. skip_if q False (Some y)))
        (\<lambda>q. ask q p m ra ex) = ask r p m ra ex ?w2"
    by (simp add: call_on_def skip_if_fields)
  have ns: "\<not> should_skip_question (questions ?w2 r)"
    by (simp add: skip_if_fields)
  have res: "fst (unsafe_ask r p ?w2) = fst (run (application (questions w r)) (engine w))"
    using unsafe_ask_result [OF ns, of p] by (simp add: skip_if_fields)
  have runs: "program_runs r (snd (ask r p m ra ex ?w2)) = Suc (program_runs r w)"
    using ask_runs [OF ns, of p m ra ex] by (simp add: program_runs_def skip_if_fields)
  have answer: "fst (run (application (questions w r)) (engine w)) \<noteq> Inl KeyboardInterrupt \<longrightarrow>
      fst (ask r p m ra ex ?w2) = fst (run (application (questions w r)) (engine w))"
    using res by (simp add: ask_no_interrupt)
  have setter: "fst (skip_if r c (Some d) w) = r \<and>
   should_skip_question (questions (snd (skip_if r c (Some d) w)) r) = c \<and>
   default_value (questions (snd (skip_if r c (Some d) w)) r) = d"
    by (simp add: skip_if_fields)
  from setter runs answer show ?thesis
    unfolding chain by blast
qed

theorem skip_if_last_call_wins_witness:
  "fst (run (application (questions (stub_world (Inr (PyStr ''answer'')) False PyNone ''3.0.1'') 0))
          (engine (stub_world (Inr (PyStr ''answer'')) False PyNone ''3.0.1''))) \<noteq>
     Inl KeyboardInterrupt \<and>
   fst (call_on (call_on (skip_if 0 True (Some (PyStr ''X''))
                   (stub_world (Inr (PyStr ''answer'')) False PyNone ''3.0.1''))
          (\<lambda>q. skip_if q False (Some (PyStr ''Y''))))
        (\<lambda>q. ask q False None False (PyBool False))) = Inr (PyStr ''answer'')"
  using skip_if_last_call_wins [where w = "stub_world (Inr (PyStr ''answer'')) False PyNone ''3.0.1''"
      and r = 0 and x = "PyStr ''X''" and y = "PyStr ''Y''" and p = False and m = None
      and ra = False and ex = "PyBool False"]
  by (simp add: stub_world_def stub_program_def process_start_def)

text \<open>
  Claim C10. \<open>skip_if\<close> stores its \<open>default\<close> argument whatever the condition is,
  also when it is false. Left out, the argument is \<open>None\<close>, the value
  \<open>__init__\<close> stores as well; so after \<open>skip_if(True)\<close>, \<open>ask\<close> and \<open>unsafe_ask\<close>
  return \<open>None\<close>.
\<close>

theorem skip_if_overwrites_default:
  "default_value (questions (snd (skip_if r c d w)) r) = (case d of None \<Rightarrow> PyNone | Some v \<Rightarrow> v) \<and>
   default_value (questions (snd (skip_if r False (Some v) w)) r) = v \<and>
   default_value (questions (Question_init r app w) r) = PyNone \<and>
   default_value (questions (snd (skip_if r c None w)) r) =
     default_value (questions (Question_init r app w) r) \<and>
   call_on (skip_if r True None w) (\<lambda>q. ask q p m ra ex) =
     (Inr PyNone, snd (skip_if r True None w)) \<and>
   call_on (skip_if r True None w) (\<lambda>q. unsafe_ask q p) =
     (Inr PyNone, snd (skip_if r True None w))"
  by (simp add: skip_if_fields Question_init_def call_on_def ask_def unsafe_ask_def)


theorem skip_if_overwrites_default_witness:
  "default_value
     (questions (snd (skip_if 0 False (Some (PyStr ''Y''))
        (stub_world (Inr (PyStr ''answer'')) False (PyStr ''old'') ''3.0.1''))) 0) = PyStr ''Y'' \<and>
   fst (call_on (skip_if 0 True None
          (stub_world (Inr (PyStr ''answer'')) False (PyStr ''old'') ''3.0.1''))
        (\<lambda>q. ask q False None False (PyBool False))) = Inr PyNone"
  using skip_if_overwrites_default
    [where w = "stub_world (Inr (PyStr ''answer'')) False (PyStr ''old'') ''3.0.1''"
       and r = 0 and v = "PyStr ''Y''" and p = False and m = None and ra = False
       and ex = "PyBool False"]
  by simp

section \<open>What crosses the boundary of a question\<close>

text \<open>
  Claim C6. \<open>unsafe_ask\<close> and \<open>unsafe_ask_async\<close> catch nothing: whatever the
  program returns or raises, an interrupt included, is what they return or raise.
  \<open>ask\<close> and \<open>ask_async\<close> intercept the interrupt and only the interrupt: when the
  unsafe call raises \<open>KeyboardInterrupt\<close> the result is that of \<open>handle_kbi\<close>, so
  under the default policy the caller gets \<open>None\<close> and no exception; any other
  outcome of the unsafe call is passed on with the state it left, so a failure of the
  program that is not an interrupt reaches the caller of \<open>ask\<close> as it was raised.
\<close>

theorem only_interrupt_intercepted:
  "(\<not> should_skip_question (questions w r) \<longrightarrow>
      fst (unsafe_ask r p w) = fst (run (application (questions w r)) (engine w)) \<and>
      fst (unsafe_ask_async r p w) =
        fst (run_async (application (questions w r)) (engine w))) \<and>
   (fst (unsafe_ask r p w) \<noteq> Inl KeyboardInterrupt \<longrightarrow>
      ask r p m ra ex w = unsafe_ask r p w) \<and>
   (fst (unsafe_ask_async r p (record_call StdoutFlush w)) \<noteq> Inl KeyboardInterrupt \<longrightarrow>
      ask_async r p m ra ex w = unsafe_ask_async r p (record_call StdoutFlush w)) \<and>
   (\<not> should_skip_question (questions w r) \<and> e \<noteq> KeyboardInterrupt \<and>
    fst (run (application (questions w r)) (engine w)) = Inl e \<longrightarrow>
      fst (ask r p m ra ex w) = Inl e) \<and>
   (\<not> should_skip_question (questions w r) \<and> e \<noteq> KeyboardInterrupt \<and>
    fst (run_async (application (questions w r)) (engine w)) = Inl e \<longrightarrow>
      fst (ask_async r p m ra ex w) = Inl e) \<and>
   (fst (unsafe_ask r p w) = Inl KeyboardInterrupt \<longrightarrow>
      ask r p m ra ex w = handle_kbi m ra ex (snd (unsafe_ask r p w))) \<and>
   (fst (unsafe_ask_async r p (record_call StdoutFlush w)) = Inl KeyboardInterrupt \<longrightarrow>
      ask_async r p m ra ex w =
        handle_kbi m ra ex (snd (unsafe_ask_async r p (record_call StdoutFlush w)))) \<and>
   (\<not> should_skip_question (questions w r) \<and>
    fst (run (application (questions w r)) (engine w)) = Inl KeyboardInterrupt \<longrightarrow>
      fst (ask r p None False (PyBool False) w) = Inr PyNone) \<and>
   (\<not> should_skip_question (questions w r) \<and>
    fst (run_async (application (questions w r)) (engine w)) = Inl KeyboardInterrupt \<longrightarrow>
      fst (ask_async r p None False (PyBool False) w) = Inr PyNone)"
proof (intro conjI impI)
  assume "\<not> should_skip_question (questions w r)"
  then show "fst (unsafe_ask r p w) = fst (run (application (questions w r)) (engine w))"
    and "fst (unsafe_ask_async r p w) =
        fst (run_async (application (questions w r)) (engine w))"
    by (simp_all add: unsafe_ask_result unsafe_ask_async_result)
next
  assume "fst (unsafe_ask r p w) \<noteq> Inl KeyboardInterrupt"
  then show "ask r p m ra ex w = unsafe_ask r p w" by (rule ask_no_interrupt)
next
  assume "fst (unsafe_ask_async r p (record_call StdoutFlush w)) \<noteq> Inl KeyboardInterrupt"
  then show "ask_async r p m ra ex w = unsafe_ask_async r p (record_call StdoutFlush w)"
    by (rule ask_async_no_interrupt)
next
  assume h: "\<not> should_skip_question (questions w r) \<and> e \<noteq> KeyboardInterrupt \<and>
    fst (run (application (questions w r)) (engine w)) = Inl e"
  then have "fst (unsafe_ask r p w) = Inl e" by (simp add: unsafe_ask_result)
  with h show "fst (ask r p m ra ex w) = Inl e" by (simp add: ask_no_interrupt)
next
  assume h: "\<not> should_skip_question (questions w r) \<and> e \<noteq> KeyboardInterrupt \<and>
    fst (run_async (application (questions w r)) (engine w)) = Inl e"
  then have "fst (unsafe_ask_async r p (record_call StdoutFlush w)) = Inl e"
    using unsafe_ask_async_result [of "record_call StdoutFlush w" r p] by simp
  with h show "fst (ask_async r p m ra ex w) = Inl e" by (simp add: ask_async_no_interrupt)
next
  assume "fst (unsafe_ask r p w) = Inl KeyboardInterrupt"
  then show "ask r p m ra ex w = handle_kbi m ra ex (snd (unsafe_ask r p w))"
    by (rule ask_interrupt_fst)
next
  assume "fst (unsafe_ask_async r p (record_call StdoutFlush w)) = Inl KeyboardInterrupt"
  then show "ask_async r p m ra ex w =
        handle_kbi m ra ex (snd (unsafe_ask_async r p (record_call StdoutFlush w)))"
    by (rule ask_async_interrupt)
next
  assume h: "\<not> should_skip_question (questions w r) \<and>
    fst (run (application (questions w r)) (engine w)) = Inl KeyboardInterrupt"
  then have "fst (unsafe_ask r p w) = Inl KeyboardInterrupt"
    by (simp add: unsafe_ask_result)
  then show "fst (ask r p None False (PyBool False) w) = Inr PyNone"
    by (simp add: ask_interrupt_fst handle_kbi_def)
next
  assume h: "\<not> should_skip_question (questions w r) \<and>
    fst (run_async (application (questions w r)) (engine w)) = Inl KeyboardInterrupt"
  then have "fst (unsafe_ask_async r p (record_call StdoutFlush w)) = Inl KeyboardInterrupt"
    using unsafe_ask_async_result [of "record_call StdoutFlush w" r p] by simp
  then show "fst (ask_async r p None False (PyBool False) w) = Inr PyNone"
    by (simp add: ask_async_interrupt handle_kbi_def)
qed

theorem only_interrupt_intercepted_witness:
  "\<not> should_skip_question
      (questions (stub_world (Inl (OtherException ''ValueError'')) False PyNone ''3.0.1'') 0) \<and>
   OtherException ''ValueError'' \<noteq> KeyboardInterrupt \<and>
   fst (ask 0 False (Some ''Cancelled by user'') False (PyBool False)
     (stub_world (Inl (OtherException ''ValueError'')) False PyNone ''3.0.1'')) =
     Inl (OtherException ''ValueError'') \<and>
   fst (ask_async 0 False (Some ''Cancelled by user'') False (PyBool False)
     (stub_world (Inl (OtherException ''ValueError'')) False PyNone ''3.0.1'')) =
     Inl (OtherException ''ValueError'') \<and>
   fst (unsafe_ask 0 False (stub_world (Inl KeyboardInterrupt) False PyNone ''3.0.1'')) =
     Inl KeyboardInterrupt \<and>
   fst (unsafe_ask_async 0 False (stub_world (Inl KeyboardInterrupt) False PyNone ''3.0.1'')) =
     Inl KeyboardInterrupt \<and>
   fst (unsafe_ask_async 0 False
     (record_call StdoutFlush (stub_world (Inl KeyboardInterrupt) False PyNone ''3.0.1''))) =
     Inl KeyboardInterrupt \<and>
   ask 0 False None True (PyBool False)
     (stub_world (Inl KeyboardInterrupt) False PyNone ''3.0.1'') =
     handle_kbi None True (PyBool False)
       (snd (unsafe_ask 0 False (stub_world (Inl KeyboardInterrupt) False PyNone ''3.0.1''))) \<and>
   ask_async 0 False None True (PyBool False)
     (stub_world (Inl KeyboardInterrupt) False PyNone ''3.0.1'') =
     handle_kbi None True (PyBool False)
       (snd (unsafe_ask_async 0 False
          (record_call StdoutFlush
             (stub_world (Inl KeyboardInterrupt) False PyNone ''3.0.1'')))) \<and>
   fst (ask 0 False None False (PyBool False)
     (stub_world (Inl KeyboardInterrupt) False PyNone ''3.0.1'')) = Inr PyNone \<and>
   fst (ask_async 0 False None False (PyBool False)
     (stub_world (Inl KeyboardInterrupt) False PyNone ''3.0.1'')) = Inr PyNone"
proof -
  have ns: "\<not> should_skip_question
      (questions (stub_world (Inl KeyboardInterrupt) False PyNone ''3.0.1'') 0)"
    and nsf: "\<not> should_skip_question
      (questions (record_call StdoutFlush
         (stub_world (Inl KeyboardInterrupt) False PyNone ''3.0.1'')) 0)"
    and out: "fst (run (application
        (questions (stub_world (Inl KeyboardInterrupt) False PyNone ''3.0.1'') 0))
        (engine (stub_world (Inl KeyboardInterrupt) False PyNone ''3.0.1''))) =
        Inl KeyboardInterrupt"
    and outa: "fst (run_async (application
        (questions (stub_world (Inl KeyboardInterrupt) False PyNone ''3.0.1'') 0))
        (engine (stub_world (Inl KeyboardInterrupt) False PyNone ''3.0.1''))) =
        Inl KeyboardInterrupt"
    by (simp_all add: stub_world_def stub_program_def process_start_def)
  have kf: "fst (unsafe_ask_async 0 False
     (record_call StdoutFlush (stub_world (Inl KeyboardInterrupt) False PyNone ''3.0.1''))) =
     Inl KeyboardInterrupt"
    using unsafe_ask_async_result [OF nsf, of False] outa by simp
  show ?thesis
    using
      only_interrupt_intercepted
        [where w = "stub_world (Inl (OtherException ''ValueError'')) False PyNone ''3.0.1''"
           and r = 0 and p = False and m = "Some ''Cancelled by user''" and ra = False
           and ex = "PyBool False" and e = "OtherException ''ValueError''"]
      only_interrupt_intercepted
        [where w = "stub_world (Inl KeyboardInterrupt) False PyNone ''3.0.1''"
           and r = 0 and p = False and m = None and ra = True and ex = "PyBool False"]
      ns out outa kf
    by (simp add: stub_world_def stub_program_def process_start_def)
qed

section \<open>Option filtering\<close>

text \<open>
  Claim C7. \<open>used_kwargs kwargs func\<close> is, as a mapping, \<open>kwargs\<close> restricted to the
  parameter names of \<open>func\<close>: the keys among them keep their values, every other key
  is absent, and no error can arise. For \<open>{"a": 1, "b": 2, "z": 9}\<close> and \<open>f(a, b)\<close>
  the result is \<open>{"a": 1, "b": 2}\<close>.
\<close>

theorem used_kwargs_submapping:
  "map_of (used_kwargs kwargs func) = map_of kwargs |` set (arguments_of func) \<and>
   used_kwargs [(''a'', 1::int), (''b'', 2), (''z'', 9)]
     [\<lparr>name = ''a'', kind = POSITIONAL_OR_KEYWORD, has_default = False\<rparr>,
      \<lparr>name = ''b'', kind = POSITIONAL_OR_KEYWORD, has_default = False\<rparr>] =
     [(''a'', 1), (''b'', 2)]"
  by (simp add: used_kwargs_def map_of_used_kwargs arguments_of_def)

theorem used_kwargs_submapping_witness:
  "map_of (used_kwargs [(''a'', PyInt 1), (''b'', PyInt 2), (''z'', PyInt 9)]
     [\<lparr>name = ''a'', kind = POSITIONAL_OR_KEYWORD, has_default = False\<rparr>,
      \<lparr>name = ''b'', kind = POSITIONAL_OR_KEYWORD, has_default = True\<rparr>]) ''z'' = None \<and>
   map_of (used_kwargs [(''a'', PyInt 1), (''b'', PyInt 2), (''z'', PyInt 9)]
     [\<lparr>name = ''a'', kind = POSITIONAL_OR_KEYWORD, has_default = False\<rparr>,
      \<lparr>name = ''b'', kind = POSITIONAL_OR_KEYWORD, has_default = True\<rparr>]) ''b'' =
     Some (PyInt 2)"
  using used_kwargs_submapping
    [where kwargs = "[(''a'', PyInt 1), (''b'', PyInt 2), (''z'', PyInt 9)]"
       and func = "[\<lparr>name = ''a'', kind = POSITIONAL_OR_KEYWORD, has_default = False\<rparr>,
         \<lparr>name = ''b'', kind = POSITIONAL_OR_KEYWORD, has_default = True\<rparr>]"]
  by (simp add: arguments_of_def restrict_map_def)

text \<open>
  Claim C8. \<open>required_arguments func\<close> is the list of all parameter names of \<open>func\<close>
  without its trailing \<open>len(default_values_of(func))\<close> names, and
  \<open>missing_arguments func argdict\<close> is the set of required names that are not keys of
  \<open>argdict\<close>. For \<open>f(a, b)\<close> without defaults and \<open>{"a": 1}\<close> it is \<open>{"b"}\<close>.
\<close>

theorem required_and_missing_arguments:
  "required_arguments func =
     without_trailing (length (default_values_of func)) (arguments_of func) \<and>
   missing_arguments func argdict = set (required_arguments func) - dom (map_of argdict) \<and>
   missing_arguments
     [\<lparr>name = ''a'', kind = POSITIONAL_OR_KEYWORD, has_default = False\<rparr>,
      \<lparr>name = ''b'', kind = POSITIONAL_OR_KEYWORD, has_default = False\<rparr>]
     [(''a'', 1::int)] = {''b''}"
proof (intro conjI)
  show "required_arguments func =
     without_trailing (length (default_values_of func)) (arguments_of func)"
    by (simp add: required_arguments_def without_trailing_def Let_def rev_drop rev_take)
  show "missing_arguments func argdict = set (required_arguments func) - dom (map_of argdict)"
    by (simp add: missing_arguments_def dom_map_of_conv_image_fst)
  show "missing_arguments
     [\<lparr>name = ''a'', kind = POSITIONAL_OR_KEYWORD, has_default = False\<rparr>,
      \<lparr>name = ''b'', kind = POSITIONAL_OR_KEYWORD, has_default = False\<rparr>]
     [(''a'', 1::int)] = {''b''}"
    by (simp add: missing_arguments_def required_arguments_def default_values_of_def
        arguments_of_def)
qed

theorem required_and_missing_arguments_witness:
  "required_arguments
     [\<lparr>name = ''a'', kind = POSITIONAL_OR_KEYWORD, has_default = False\<rparr>,
      \<lparr>name = ''b'', kind = POSITIONAL_OR_KEYWORD, has_default = False\<rparr>,
      \<lparr>name = ''c'', kind = POSITIONAL_OR_KEYWORD, has_default = True\<rparr>,
      \<lparr>name = ''kwargs'', kind = VAR_KEYWORD, has_default = False\<rparr>] = [''a'', ''b''] \<and>
   missing_arguments
     [\<lparr>name = ''a'', kind = POSITIONAL_OR_KEYWORD, has_default = False\<rparr>,
      \<lparr>name = ''b'', kind = POSITIONAL_OR_KEYWORD, has_default = False\<rparr>,
      \<lparr>name = ''c'', kind = POSITIONAL_OR_KEYWORD, has_default = True\<rparr>,
      \<lparr>name = ''kwargs'', kind = VAR_KEYWORD, has_default = False\<rparr>]
     [(''a'', PyInt 1)] = {''b''}"
  using required_and_missing_arguments
    [where func = "[\<lparr>name = ''a'', kind = POSITIONAL_OR_KEYWORD, has_default = False\<rparr>,
         \<lparr>name = ''b'', kind = POSITIONAL_OR_KEYWORD, has_default = False\<rparr>,
         \<lparr>name = ''c'', kind = POSITIONAL_OR_KEYWORD, has_default = True\<rparr>,
         \<lparr>name = ''kwargs'', kind = VAR_KEYWORD, has_default = False\<rparr>]"
       and argdict = "[(''a'', PyInt 1)]"]
  by (simp add: without_trailing_def default_values_of_def arguments_of_def)

section \<open>The asynchronous mode flag\<close>




end
